theory Spec2Isabelle
  imports Main "HOL-Library.Word"
begin

section \<open>Data model of logplexc.go\<close>

text \<open>
  The counters of \<open>Stats\<close> are Go \<open>uint64\<close> values and the concurrency gauge is an
  \<open>int32\<close>: both are words, so every addition wraps as the machine addition does.
  The gauge is read as a signed number with \<open>sint\<close>.
\<close>

record Stats =
  Concurrency :: "32 word"
  Total :: "64 word"
  Dropped :: "64 word"
  Cancelled :: "64 word"
  Rejected :: "64 word"
  Successful :: "64 word"
  TotalRequests :: "64 word"
  DroppedRequests :: "64 word"
  CancelRequests :: "64 word"
  RejectRequests :: "64 word"
  SuccessRequests :: "64 word"

text \<open>
  The three named values of \<open>TimeTriggerBehavior\<close>. (The Go type is a byte; a value
  that is none of the three constants is treated by every comparison of the source as
  \<open>TimeTriggerNever\<close> is.)
\<close>

datatype TimeTriggerBehavior = TimeTriggerPeriodic | TimeTriggerImmediate | TimeTriggerNever

text \<open>
  A returned Go \<open>error\<close> and a run-time panic are both values here; the strings are the
  messages of the source (and of the Go run time for the nil dereference and the double
  close of a channel).
\<close>

datatype failure = Error string | Panic string

definition negative_period :: failure where
  "negative_period = Error ''logplexc.Client: negative target latency not allowed''"

definition client_closed :: failure where
  "client_closed = Error ''Failed trying to buffer a message: client already Closed''"

definition nil_dereference :: failure where
  "nil_dereference = Panic ''invalid memory address or nil pointer dereference''"

definition closed_twice :: failure where
  "closed_twice = Panic ''close of closed channel''"

text \<open>
  Modelled from the spec: the declarations of \<open>MiniStats\<close>, \<open>Bundle\<close> and \<open>MiniClient\<close>
  are in a file of the repository that is not under src/. The two fields the core reads
  have the types their uses force: \<open>NumberFramed\<close> is added to the \<open>uint64\<close> counter
  \<open>Total\<close> (line 279), \<open>Buffered\<close> is compared with the \<open>int\<close> field
  \<open>RequestSizeTrigger\<close> (line 202). A \<open>Bundle\<close> embeds a \<open>MiniStats\<close> (line 237)
  and carries the framed bytes, which the core never inspects.
\<close>

record MiniStats =
  NumberFramed :: "64 word"
  Buffered :: int

record Bundle = MiniStats +
  outbox :: "8 word list"

record MiniClient =
  Logplex :: string
  Token :: string

text \<open>The arguments of \<open>BufferMessage\<close>; the time is an opaque number.\<close>

record Message =
  stamp :: int
  host :: string
  procId :: string
  payload :: "8 word list"

text \<open>
  \<open>time.Ticker\<close>: the field \<open>ticker\<close> of a client is a pointer, \<open>None\<close> is the nil
  pointer. \<open>time.Duration\<close> is a signed 64-bit count of nanoseconds; it is only compared
  with zero, so an \<open>int\<close> models it. The channel \<open>C\<close> of a ticker buffers one
  tick: \<open>pending\<close> says that a tick is waiting there.
\<close>

record Ticker =
  every :: int
  stopped :: bool
  pending :: bool

definition NewTicker :: "int \<Rightarrow> Ticker" where
  "NewTicker d = \<lparr>every = d, stopped = False, pending = False\<rparr>"

text \<open>
  \<open>Client\<close> embeds \<open>Stats\<close>, as the Go struct does. \<open>finalize\<close> is a channel that is
  never sent on: its whole state is whether it has been closed. \<open>finalizeDone\<close> is the
  counter of the wait group. \<open>bucket\<close> is an unbuffered channel, it holds nothing itself:
  its state is the set of goroutines parked on it, which belongs to the interleaving
  semantics below. \<open>statLock\<close> is modelled by the atomicity of the four update
  functions; the field \<open>concurrency\<close> is never used by the source.
\<close>

record Client = Stats +
  c :: MiniClient
  RequestSizeTrigger :: int
  timeTrigger :: TimeTriggerBehavior
  ticker :: "Ticker option"
  finalize :: bool
  finalizeDone :: int

record Config =
  cfg_RequestSizeTrigger :: int
  cfg_Concurrency :: int
  Period :: int
  TimeTrigger :: TimeTriggerBehavior

text \<open>The HTTP response, as far as \<open>syncWorker\<close> reads it.\<close>

record Response =
  StatusCode :: int
  Body :: "8 word list"

definition StatusNoContent :: int where
  "StatusNoContent = 204"

section \<open>Construction\<close>

text \<open>The two goroutines \<open>NewClient\<close> starts (lines 146 and 163).\<close>

datatype goroutine = Token_supply | Periodic_flush

definition zero_Stats :: Stats where
  "zero_Stats = \<lparr>Concurrency = 0, Total = 0, Dropped = 0, Cancelled = 0, Rejected = 0,
     Successful = 0, TotalRequests = 0, DroppedRequests = 0, CancelRequests = 0,
     RejectRequests = 0, SuccessRequests = 0\<rparr>"

text \<open>
  The client literal of lines 109--114: every field not named there has its zero value.
\<close>

definition new_m :: "MiniClient \<Rightarrow> Config \<Rightarrow> Client" where
  "new_m mc cfg = Stats.extend zero_Stats
     (Client.fields mc (cfg_RequestSizeTrigger cfg) TimeTriggerPeriodic None False 0)"

text \<open>
  \<open>started m cfg\<close> is lines 145--180: the token-supply goroutine is registered and
  started, and under the periodic policy the ticker is made and the flushing goroutine
  is registered and started.
\<close>

definition started :: "Client \<Rightarrow> Config \<Rightarrow> goroutine list \<times> (failure + Client)" where
  "started m cfg =
     (let m1 = m\<lparr>finalizeDone := finalizeDone m + 1\<rparr> in
      if timeTrigger m1 = TimeTriggerPeriodic
      then ([Token_supply, Periodic_flush],
            Inr (m1\<lparr>ticker := Some (NewTicker (Period cfg)),
                    finalizeDone := finalizeDone m1 + 1\<rparr>))
      else ([Token_supply], Inr m1))"

text \<open>
  \<open>NewClient\<close>, lines 97--181. The first argument is what \<open>NewMiniClient\<close> returned
  (that function is not under src/). The result is the list of goroutines started and
  the returned pair, an error or the client.
\<close>

definition NewClient :: "failure + MiniClient \<Rightarrow> Config \<Rightarrow> goroutine list \<times> (failure + Client)" where
  "NewClient mini cfg =
     (case mini of
        Inl err \<Rightarrow> ([], Inl err)
      | Inr mc \<Rightarrow>
          (let m = new_m mc cfg in
           case TimeTrigger cfg of
             TimeTriggerPeriodic \<Rightarrow>
               if Period cfg < 0 then ([], Inl negative_period)
               else if Period cfg = 0 then started (m\<lparr>timeTrigger := TimeTriggerImmediate\<rparr>) cfg
               else if Period cfg > 0 then started (m\<lparr>timeTrigger := TimeTriggerPeriodic\<rparr>) cfg
               else ([], Inl (Panic ''bug''))
           | TimeTriggerImmediate \<Rightarrow> started (m\<lparr>timeTrigger := TimeTriggerImmediate\<rparr>) cfg
           | TimeTriggerNever \<Rightarrow> started (m\<lparr>timeTrigger := TimeTriggerNever\<rparr>) cfg))"

section \<open>Statistics\<close>

definition Statistics :: "Client \<Rightarrow> Stats" where
  "Statistics m = Stats.truncate m"

definition statReqTotalUnsync :: "'b MiniStats_scheme \<Rightarrow> 'a Stats_scheme \<Rightarrow> 'a Stats_scheme" where
  "statReqTotalUnsync s m =
     m\<lparr>Total := Total m + NumberFramed s, TotalRequests := TotalRequests m + 1\<rparr>"

definition statReqSuccess :: "'b MiniStats_scheme \<Rightarrow> 'a Stats_scheme \<Rightarrow> 'a Stats_scheme" where
  "statReqSuccess s m =
     (let m1 = statReqTotalUnsync s m in
      m1\<lparr>Successful := Successful m1 + NumberFramed s,
         SuccessRequests := SuccessRequests m1 + 1\<rparr>)"

definition statReqErr :: "'b MiniStats_scheme \<Rightarrow> 'a Stats_scheme \<Rightarrow> 'a Stats_scheme" where
  "statReqErr s m =
     (let m1 = statReqTotalUnsync s m in
      m1\<lparr>Cancelled := Cancelled m1 + NumberFramed s,
         CancelRequests := CancelRequests m1 + 1\<rparr>)"

definition statReqRej :: "'b MiniStats_scheme \<Rightarrow> 'a Stats_scheme \<Rightarrow> 'a Stats_scheme" where
  "statReqRej s m =
     (let m1 = statReqTotalUnsync s m in
      m1\<lparr>Rejected := Rejected m1 + NumberFramed s,
         RejectRequests := RejectRequests m1 + 1\<rparr>)"

definition statReqDrop :: "'b MiniStats_scheme \<Rightarrow> 'a Stats_scheme \<Rightarrow> 'a Stats_scheme" where
  "statReqDrop s m =
     (let m1 = statReqTotalUnsync s m in
      m1\<lparr>Dropped := Dropped m1 + NumberFramed s,
         DroppedRequests := DroppedRequests m1 + 1\<rparr>)"

text \<open>\<open>atomic.AddInt32\<close> on the gauge \<open>m.Stats.Concurrency\<close>.\<close>

definition AddInt32 :: "32 word \<Rightarrow> 'a Stats_scheme \<Rightarrow> 'a Stats_scheme" where
  "AddInt32 d m = m\<lparr>Concurrency := Concurrency m + d\<rparr>"

section \<open>Flush attempts and deliveries, one call at a time\<close>

text \<open>
  What a call does outside the client struct: calls of the collaborator, operations on
  the token channel, goroutines started, and the scheduling hint.
\<close>

datatype effect =
    BufferMessage_call Message
  | SwapBundle_call
  | Bucket_recv
  | Go_syncWorker Bundle
  | Gosched
  | Post_call Bundle
  | Body_Close
  | Bucket_send

text \<open>
  The \<open>select\<close> of line 231 has a \<open>default\<close> branch: either a sender is parked on
  \<open>bucket\<close> at that instant and the receive succeeds, or the default branch runs.
\<close>

datatype acquire = Token_ready | No_token

text \<open>
  \<open>dispatch b sel m\<close> is lines 224--243 of \<open>maybeWork\<close>, \<open>b\<close> being the bundle
  \<open>SwapBundle\<close> returned and \<open>sel\<close> the outcome of the select, should it be reached.
\<close>

definition dispatch :: "Bundle \<Rightarrow> acquire \<Rightarrow> Client \<Rightarrow> Client \<times> effect list" where
  "dispatch b sel m =
     (if NumberFramed b \<le> 0 then (m, [])
      else case sel of
             Token_ready \<Rightarrow>
               (m\<lparr>finalizeDone := finalizeDone m + 1\<rparr>, [Bucket_recv, Go_syncWorker b])
           | No_token \<Rightarrow> (statReqDrop b m, [Gosched]))"

definition maybeWork :: "Bundle \<Rightarrow> acquire \<Rightarrow> Client \<Rightarrow> Client \<times> effect list" where
  "maybeWork b sel m =
     (let m1 = AddInt32 1 m;
          (m2, es) = dispatch b sel m1
      in (AddInt32 (- 1) m2, SwapBundle_call # es))"

text \<open>
  \<open>BufferMessage\<close>, lines 190--208: \<open>s\<close> is what the collaborator's \<open>BufferMessage\<close>
  returns, \<open>b\<close> and \<open>sel\<close> are as for \<open>maybeWork\<close>. The first component is the
  returned error, \<open>None\<close> for nil.
\<close>

definition BufferMessage ::
  "Message \<Rightarrow> MiniStats \<Rightarrow> Bundle \<Rightarrow> acquire \<Rightarrow> Client \<Rightarrow> failure option \<times> Client \<times> effect list" where
  "BufferMessage msg s b sel m =
     (if finalize m then (Some client_closed, m, [])
      else if Buffered s \<ge> RequestSizeTrigger m \<or> timeTrigger m = TimeTriggerImmediate
           then (let (m', es) = maybeWork b sel m in (None, m', BufferMessage_call msg # es))
           else (None, m, [BufferMessage_call msg]))"

text \<open>
  Lines 262--275 of \<open>syncWorker\<close>: \<open>r\<close> is what \<open>Post\<close> returned, an error or a
  response (the source reads the response only after it has found the error nil).
\<close>

definition syncWorker_post :: "failure + Response \<Rightarrow> Bundle \<Rightarrow> 'a Stats_scheme \<Rightarrow> 'a Stats_scheme" where
  "syncWorker_post r b m =
     (case r of
        Inl err \<Rightarrow> statReqErr b m
      | Inr resp \<Rightarrow>
          if StatusCode resp \<noteq> StatusNoContent then statReqRej b m else statReqSuccess b m)"

text \<open>\<open>m.finalizeDone.Done()\<close>, deferred by every goroutine the client starts.\<close>

definition Done :: "Client \<Rightarrow> Client" where
  "Done m = m\<lparr>finalizeDone := finalizeDone m - 1\<rparr>"

text \<open>
  The deferred \<open>select\<close> of lines 252--258 blocks until the token is taken or
  \<open>finalize\<close> is closed.
\<close>

datatype release = Token_returned | Return_abandoned

definition syncWorker :: "Bundle \<Rightarrow> failure + Response \<Rightarrow> release \<Rightarrow> Client \<Rightarrow> Client \<times> effect list" where
  "syncWorker b r rel m =
     (Done (syncWorker_post r b m),
      Post_call b # (case r of Inl err \<Rightarrow> [] | Inr resp \<Rightarrow> [Body_Close])
        @ (case rel of Token_returned \<Rightarrow> [Bucket_send] | Return_abandoned \<Rightarrow> []))"

text \<open>
  \<open>Close\<close>, lines 185--186: stopping the ticker through a nil pointer panics, and so
  does closing a channel twice. Line 187 is the blocking wait, the step \<open>Close_return\<close>
  of the interleaving semantics.
\<close>

definition Close :: "Client \<Rightarrow> failure + Client" where
  "Close m =
     (case ticker m of
        None \<Rightarrow> Inl nil_dereference
      | Some t \<Rightarrow>
          if finalize m then Inl closed_twice
          else Inr (m\<lparr>ticker := Some (t\<lparr>stopped := True\<rparr>), finalize := True\<rparr>))"

section \<open>Interleaving semantics\<close>

text \<open>
  The goroutines of a client and where each of them stands.

  The token-supply goroutine (lines 146--156) is at the loop test with index \<open>i\<close>, is
  parked in the select of iteration \<open>i\<close>, or has returned: after the loop, or through
  the closed \<open>finalize\<close>. The index counts the sends it has completed.
\<close>

datatype supplier =
    Supply_test int | Supply_select int | Supply_finished int | Supply_cancelled int

text \<open>The periodic goroutine (lines 163--177), if there is one.\<close>

datatype periodic = No_periodic | Tick_wait | Tick_flush | Tick_exit

text \<open>
  A call of \<open>maybeWork\<close> in flight, made by \<open>BufferMessage\<close> or by the periodic
  goroutine: after the increment of line 219, or past line 243 with the deferred
  decrement still to run.
\<close>

datatype caller = By_buffer | By_tick

datatype attempt = Entered caller | Leaving caller

text \<open>
  A \<open>syncWorker\<close> goroutine: inside \<open>Post\<close> with its bundle, past the update of the
  statistics and about to run its deferred functions, or parked in the deferred select
  of line 252, offering its token.
\<close>

datatype delivery = Posting Bundle | Accounted | Releasing

datatype closer = Not_closing | Close_waiting | Close_returned

text \<open>
  \<open>buffering\<close> counts the calls of \<open>BufferMessage\<close> that have passed the check of
  line 193 and not yet reached line 202. \<open>trace\<close> records the effects so far.
\<close>

record world =
  client :: Client
  supplier :: supplier
  flusher :: periodic
  buffering :: nat
  attempts :: "attempt list"
  deliveries :: "delivery list"
  closer :: closer
  trace :: "effect list"

text \<open>The state in which \<open>NewClient\<close> returns.\<close>

definition boot :: "goroutine list \<Rightarrow> Client \<Rightarrow> world" where
  "boot gs m = \<lparr>client = m, supplier = Supply_test 0,
     flusher = (if Periodic_flush \<in> set gs then Tick_wait else No_periodic),
     buffering = 0, attempts = [], deliveries = [], closer = Not_closing, trace = []\<rparr>"

text \<open>
  A sender is parked on \<open>bucket\<close>: the supplier in its select, or a delivery task
  offering its token. Only then does the receive of line 232 succeed.
\<close>

definition supply_parked :: "world \<Rightarrow> bool" where
  "supply_parked w = (case supplier w of Supply_select i \<Rightarrow> True | _ \<Rightarrow> False)"

definition parked :: "world \<Rightarrow> bool" where
  "parked w = (supply_parked w \<or> Releasing \<in> set (deliveries w))"

datatype source = From_supply | From_delivery

text \<open>
  The atomic steps. The collaborator, the network and the clock are the environment:
  what they return comes with the action.
  \<^item> \<open>Supply_step\<close>: the loop test of line 149; the supplier parks in its select or
    leaves the loop and returns.
  \<^item> \<open>Supply_cancel\<close>, \<open>Tick_cancel\<close>, \<open>Release_cancel\<close>: a goroutine parked in a
    select receives from the closed \<open>finalize\<close> (lines 152, 171, 255) and returns.
  \<^item> \<open>Ticker_fire\<close>: the run time puts a tick into the channel of a running ticker.
  \<^item> \<open>Tick\<close>: the periodic goroutine receives the tick (line 170) and enters
    \<open>maybeWork\<close> (line 219).
  \<^item> \<open>Buffer_check\<close>: a call of \<open>BufferMessage\<close> runs the select of lines 193--199;
    on a closed client it returns its error and nothing changes.
  \<^item> \<open>Buffer_record msg s\<close>: lines 201--204, the collaborator returns \<open>s\<close>; the call
    enters \<open>maybeWork\<close> or returns nil.
  \<^item> \<open>Dispatch who b src\<close>: lines 222--243 for the bundle \<open>b\<close> that \<open>SwapBundle\<close>
    returns. With \<open>Some src\<close> the select receives the token of the parked sender
    \<open>src\<close>, which goes on (the supplier to its next loop test, the delivery task to
    its return), and a new delivery task starts. With \<open>None\<close> the bundle is empty or
    the default branch runs, which needs that no sender is parked.
  \<^item> \<open>Leave who\<close>: the deferred decrement of line 220.
  \<^item> \<open>Post_return b r\<close>: \<open>Post\<close> returns \<open>r\<close> to the task that delivers \<open>b\<close>,
    lines 262--275.
  \<^item> \<open>Release_offer\<close>: that task reaches the select of line 252 and parks.
  \<^item> \<open>Close_call\<close>: lines 185--186; a call that panics has no successor state.
  \<^item> \<open>Close_return\<close>: the wait of line 187 ends.
\<close>

datatype action =
    Supply_step
  | Supply_cancel
  | Ticker_fire
  | Tick
  | Tick_cancel
  | Buffer_check
  | Buffer_record Message MiniStats
  | Dispatch caller Bundle "source option"
  | Leave caller
  | Post_return Bundle "failure + Response"
  | Release_offer
  | Release_cancel
  | Close_call
  | Close_return

definition enter :: "caller \<Rightarrow> world \<Rightarrow> world" where
  "enter who w = w\<lparr>client := AddInt32 1 (client w), attempts := Entered who # attempts w\<rparr>"

definition dispatched :: "caller \<Rightarrow> Client \<times> effect list \<Rightarrow> world \<Rightarrow> world" where
  "dispatched who r w = w\<lparr>client := fst r,
     attempts := Leaving who # remove1 (Entered who) (attempts w),
     trace := trace w @ SwapBundle_call # snd r\<rparr>"

fun step :: "Config \<Rightarrow> action \<Rightarrow> world \<Rightarrow> world option" where
  "step cfg Supply_step w =
     (case supplier w of
        Supply_test i \<Rightarrow>
          if i < cfg_Concurrency cfg then Some (w\<lparr>supplier := Supply_select i\<rparr>)
          else Some (w\<lparr>supplier := Supply_finished i, client := Done (client w)\<rparr>)
      | _ \<Rightarrow> None)"
| "step cfg Supply_cancel w =
     (case supplier w of
        Supply_select i \<Rightarrow>
          if finalize (client w)
          then Some (w\<lparr>supplier := Supply_cancelled i, client := Done (client w)\<rparr>)
          else None
      | _ \<Rightarrow> None)"
| "step cfg Ticker_fire w =
     (case ticker (client w) of
        None \<Rightarrow> None
      | Some t \<Rightarrow>
          if stopped t then None
          else Some (w\<lparr>client := (client w)\<lparr>ticker := Some (t\<lparr>pending := True\<rparr>)\<rparr>\<rparr>))"
| "step cfg Tick w =
     (case ticker (client w) of
        None \<Rightarrow> None
      | Some t \<Rightarrow>
          if flusher w = Tick_wait \<and> pending t
          then Some (enter By_tick
                 (w\<lparr>client := (client w)\<lparr>ticker := Some (t\<lparr>pending := False\<rparr>)\<rparr>,
                    flusher := Tick_flush\<rparr>))
          else None)"
| "step cfg Tick_cancel w =
     (if flusher w = Tick_wait \<and> finalize (client w)
      then Some (w\<lparr>flusher := Tick_exit, client := Done (client w)\<rparr>)
      else None)"
| "step cfg Buffer_check w =
     (if finalize (client w) then Some w else Some (w\<lparr>buffering := Suc (buffering w)\<rparr>))"
| "step cfg (Buffer_record msg s) w =
     (case buffering w of
        0 \<Rightarrow> None
      | Suc n \<Rightarrow>
          (let w1 = w\<lparr>buffering := n, trace := trace w @ [BufferMessage_call msg]\<rparr> in
           if Buffered s \<ge> RequestSizeTrigger (client w)
                \<or> timeTrigger (client w) = TimeTriggerImmediate
           then Some (enter By_buffer w1)
           else Some w1))"
| "step cfg (Dispatch who b None) w =
     (if Entered who \<in> set (attempts w)
      then if NumberFramed b \<le> 0 then Some (dispatched who (dispatch b No_token (client w)) w)
           else if parked w then None
           else Some (dispatched who (dispatch b No_token (client w)) w)
      else None)"
| "step cfg (Dispatch who b (Some From_supply)) w =
     (if Entered who \<in> set (attempts w)
      then if NumberFramed b \<le> 0 then None
           else case supplier w of
                  Supply_select i \<Rightarrow>
                    Some ((dispatched who (dispatch b Token_ready (client w)) w)
                      \<lparr>supplier := Supply_test (i + 1),
                       deliveries := Posting b # deliveries w\<rparr>)
                | _ \<Rightarrow> None
      else None)"
| "step cfg (Dispatch who b (Some From_delivery)) w =
     (if Entered who \<in> set (attempts w)
      then if NumberFramed b \<le> 0 then None
           else if Releasing \<in> set (deliveries w)
           then Some ((dispatched who (dispatch b Token_ready (Done (client w))) w)
                  \<lparr>deliveries := Posting b # remove1 Releasing (deliveries w)\<rparr>)
           else None
      else None)"
| "step cfg (Leave who) w =
     (if Leaving who \<in> set (attempts w)
      then Some (w\<lparr>client := AddInt32 (- 1) (client w),
                   attempts := remove1 (Leaving who) (attempts w),
                   flusher := (if who = By_tick then Tick_wait else flusher w)\<rparr>)
      else None)"
| "step cfg (Post_return b r) w =
     (if Posting b \<in> set (deliveries w)
      then Some (w\<lparr>client := syncWorker_post r b (client w),
                   deliveries := Accounted # remove1 (Posting b) (deliveries w),
                   trace := trace w @ [Post_call b]\<rparr>)
      else None)"
| "step cfg Release_offer w =
     (if Accounted \<in> set (deliveries w)
      then Some (w\<lparr>deliveries := Releasing # remove1 Accounted (deliveries w)\<rparr>)
      else None)"
| "step cfg Release_cancel w =
     (if Releasing \<in> set (deliveries w) \<and> finalize (client w)
      then Some (w\<lparr>client := Done (client w),
                   deliveries := remove1 Releasing (deliveries w)\<rparr>)
      else None)"
| "step cfg Close_call w =
     (case Close (client w) of
        Inl p \<Rightarrow> None
      | Inr m \<Rightarrow> Some (w\<lparr>client := m, closer := Close_waiting\<rparr>))"
| "step cfg Close_return w =
     (if closer w = Close_waiting \<and> finalizeDone (client w) = 0
      then Some (w\<lparr>closer := Close_returned\<rparr>)
      else None)"

fun run :: "Config \<Rightarrow> action list \<Rightarrow> world \<Rightarrow> world option" where
  "run cfg [] w = Some w"
| "run cfg (a # as) w = (case step cfg a w of None \<Rightarrow> None | Some w' \<Rightarrow> run cfg as w')"

text \<open>
  An execution: a client is constructed, then the goroutines and the callers take the
  steps of the schedule. The supplier reads \<open>cfg.Concurrency\<close> through the pointer it
  was given at every loop test; the configuration is taken not to change after the
  construction.
\<close>

definition execution :: "failure + MiniClient \<Rightarrow> Config \<Rightarrow> action list \<Rightarrow> world option" where
  "execution mini cfg sched =
     (case NewClient mini cfg of
        (gs, Inl err) \<Rightarrow> None
      | (gs, Inr m) \<Rightarrow> run cfg sched (boot gs m))"

section \<open>Quantities the properties speak about\<close>

text \<open>
  The four terminal categories, and what the specification says an update does: it adds
  the record count of the batch to the message counter of one category and to the
  total, and one to the request counter of that category and to the total of requests.
\<close>

datatype category = Cat_dropped | Cat_cancelled | Cat_rejected | Cat_successful

definition credit :: "category \<Rightarrow> 64 word \<Rightarrow> 'a Stats_scheme \<Rightarrow> 'a Stats_scheme" where
  "credit k n m = m\<lparr>
     Total := Total m + n,
     TotalRequests := TotalRequests m + 1,
     Dropped := Dropped m + (if k = Cat_dropped then n else 0),
     DroppedRequests := DroppedRequests m + (if k = Cat_dropped then 1 else 0),
     Cancelled := Cancelled m + (if k = Cat_cancelled then n else 0),
     CancelRequests := CancelRequests m + (if k = Cat_cancelled then 1 else 0),
     Rejected := Rejected m + (if k = Cat_rejected then n else 0),
     RejectRequests := RejectRequests m + (if k = Cat_rejected then 1 else 0),
     Successful := Successful m + (if k = Cat_successful then n else 0),
     SuccessRequests := SuccessRequests m + (if k = Cat_successful then 1 else 0)\<rparr>"

definition balanced :: "'a Stats_scheme \<Rightarrow> bool" where
  "balanced m \<longleftrightarrow>
     Successful m + Rejected m + Cancelled m + Dropped m = Total m \<and>
     SuccessRequests m + RejectRequests m + CancelRequests m + DroppedRequests m
       = TotalRequests m"

text \<open>The counters of a client without the gauge.\<close>

definition counters :: "Client \<Rightarrow> Stats" where
  "counters m = (Statistics m)\<lparr>Concurrency := 0\<rparr>"

text \<open>
  The shape of what \<open>Post\<close> returned: no response, or the status code of the response.
  The specification's classification is a function of the shape.
\<close>

definition shape :: "failure + Response \<Rightarrow> int option" where
  "shape r = (case r of Inl err \<Rightarrow> None | Inr resp \<Rightarrow> Some (StatusCode resp))"

definition classify :: "int option \<Rightarrow> category" where
  "classify sh =
     (case sh of
        None \<Rightarrow> Cat_cancelled
      | Some code \<Rightarrow> if code = StatusNoContent then Cat_successful else Cat_rejected)"

text \<open>
  Admission tokens. The channel is unbuffered, so a token is never at rest in it: a
  send completes in the instant a flush attempt receives it, and from then on the token
  is held by the delivery task that attempt starts, until the task hands it to the next
  attempt or gives up at shutdown. The tokens in circulation are the tokens the
  delivery tasks hold; \<open>supplied\<close> counts the sends the supplier has completed.
\<close>

definition tokens :: "world \<Rightarrow> nat" where
  "tokens w = length (deliveries w)"

definition supplied :: "world \<Rightarrow> int" where
  "supplied w =
     (case supplier w of
        Supply_test i \<Rightarrow> i | Supply_select i \<Rightarrow> i
      | Supply_finished i \<Rightarrow> i | Supply_cancelled i \<Rightarrow> i)"

fun is_Posting :: "delivery \<Rightarrow> bool" where
  "is_Posting (Posting b) = True"
| "is_Posting Accounted = False"
| "is_Posting Releasing = False"

definition posting :: "world \<Rightarrow> nat" where
  "posting w = length (filter is_Posting (deliveries w))"

definition supply_ok :: "Config \<Rightarrow> world \<Rightarrow> bool" where
  "supply_ok cfg w =
     (case supplier w of
        Supply_test i \<Rightarrow> 0 \<le> i \<and> i \<le> max 0 (cfg_Concurrency cfg)
      | Supply_select i \<Rightarrow> 0 \<le> i \<and> i < cfg_Concurrency cfg
      | Supply_finished i \<Rightarrow> i = max 0 (cfg_Concurrency cfg)
      | Supply_cancelled i \<Rightarrow> 0 \<le> i \<and> i < cfg_Concurrency cfg)"

definition token_inv :: "Config \<Rightarrow> world \<Rightarrow> bool" where
  "token_inv cfg w \<longleftrightarrow> supply_ok cfg w \<and> int (tokens w) \<le> supplied w"

text \<open>The gauge, read as the signed number it is.\<close>

definition gauge :: "world \<Rightarrow> int" where
  "gauge w = sint (Concurrency (client w))"

text \<open>The bundles for which a delivery task has been started.\<close>

fun spawned :: "effect list \<Rightarrow> Bundle list" where
  "spawned [] = []"
| "spawned (Go_syncWorker b # es) = b # spawned es"
| "spawned (e # es) = spawned es"

text \<open>The receives on \<open>bucket\<close> (line 232) that have succeeded.\<close>

fun received :: "effect list \<Rightarrow> nat" where
  "received [] = 0"
| "received (Bucket_recv # es) = Suc (received es)"
| "received (e # es) = received es"

text \<open>No delivery task exists or has existed, and the supplier has handed over nothing.\<close>

definition idle :: "world \<Rightarrow> bool" where
  "idle w \<longleftrightarrow> deliveries w = [] \<and> spawned (trace w) = [] \<and> supplied w = 0"

text \<open>\<open>Close\<close> on the client a construction returns.\<close>

definition NewClient_Close :: "failure + MiniClient \<Rightarrow> Config \<Rightarrow> failure + Client" where
  "NewClient_Close mini cfg =
     (case snd (NewClient mini cfg) of Inl err \<Rightarrow> Inl err | Inr m \<Rightarrow> Close m)"

text \<open>
  A supplier that has returned through \<open>finalize\<close> did so after the channel was
  closed.
\<close>

definition cancel_ok :: "world \<Rightarrow> bool" where
  "cancel_ok w = (case supplier w of Supply_cancelled i \<Rightarrow> finalize (client w) | _ \<Rightarrow> True)"

text \<open>
  What a step does to the counters: a default branch on a batch with records credits a
  drop, the return of \<open>Post\<close> credits the category of its shape, no other step
  touches them.
\<close>

definition counted :: "action \<Rightarrow> Stats \<Rightarrow> Stats" where
  "counted a st =
     (case a of
        Dispatch who b None \<Rightarrow>
          if NumberFramed b = 0 then st else credit Cat_dropped (NumberFramed b) st
      | Post_return b r \<Rightarrow> credit (classify (shape r)) (NumberFramed b) st
      | _ \<Rightarrow> st)"

section \<open>Sample inputs\<close>

definition sample_mini :: MiniClient where
  "sample_mini = \<lparr>Logplex = ''https://logplex.example/logs'', Token = ''t.0''\<rparr>"

definition sample_message :: Message where
  "sample_message = \<lparr>stamp = 0, host = ''web.1'', procId = ''app'', payload = [104, 105]\<rparr>"

definition one_buffered :: MiniStats where
  "one_buffered = \<lparr>NumberFramed = 1, Buffered = 40\<rparr>"

definition one_record :: Bundle where
  "one_record = \<lparr>NumberFramed = 1, Buffered = 40, outbox = [104, 105]\<rparr>"

definition two_records :: Bundle where
  "two_records = \<lparr>NumberFramed = 2, Buffered = 80, outbox = [104, 105, 104, 111]\<rparr>"

definition no_record :: Bundle where
  "no_record = \<lparr>NumberFramed = 0, Buffered = 0, outbox = []\<rparr>"

definition no_content :: Response where
  "no_content = \<lparr>StatusCode = 204, Body = []\<rparr>"

text \<open>Capacity one, flushing on every record of 40 bytes or more, no timer.\<close>

definition one_worker :: Config where
  "one_worker = \<lparr>cfg_RequestSizeTrigger = 40, cfg_Concurrency = 1, Period = 0,
     TimeTrigger = TimeTriggerNever\<rparr>"

text \<open>Capacity one, with a ticker of one second.\<close>

definition one_worker_periodic :: Config where
  "one_worker_periodic = \<lparr>cfg_RequestSizeTrigger = 40, cfg_Concurrency = 1,
     Period = 1000000000, TimeTrigger = TimeTriggerPeriodic\<rparr>"

definition no_worker :: Config where
  "no_worker = \<lparr>cfg_RequestSizeTrigger = 40, cfg_Concurrency = 0, Period = 0,
     TimeTrigger = TimeTriggerNever\<rparr>"

definition negative_period_never :: Config where
  "negative_period_never = \<lparr>cfg_RequestSizeTrigger = 40, cfg_Concurrency = 1, Period = - 1,
     TimeTrigger = TimeTriggerNever\<rparr>"

definition negative_period_periodic :: Config where
  "negative_period_periodic = \<lparr>cfg_RequestSizeTrigger = 40, cfg_Concurrency = 1, Period = - 1,
     TimeTrigger = TimeTriggerPeriodic\<rparr>"

definition zero_period_periodic :: Config where
  "zero_period_periodic = \<lparr>cfg_RequestSizeTrigger = 40, cfg_Concurrency = 1, Period = 0,
     TimeTrigger = TimeTriggerPeriodic\<rparr>"

text \<open>
  One record is buffered and delivered with the supplier's token; while its request is
  in flight a second flush finds no token and drops two records; then the request is
  answered with 204.
\<close>

definition deliver_and_drop :: "action list" where
  "deliver_and_drop =
     [Supply_step, Buffer_check, Buffer_record sample_message one_buffered,
      Dispatch By_buffer one_record (Some From_supply), Leave By_buffer,
      Buffer_check, Buffer_record sample_message one_buffered,
      Dispatch By_buffer two_records None, Leave By_buffer,
      Post_return one_record (Inr no_content)]"

text \<open>A record has been buffered and its flush attempt has entered \<open>maybeWork\<close>.\<close>

definition one_attempt :: "action list" where
  "one_attempt = [Buffer_check, Buffer_record sample_message one_buffered]"

text \<open>
  A size-triggered flush attempt is between lines 219 and 220 when the ticker fires and
  the periodic goroutine enters \<open>maybeWork\<close> too.
\<close>

definition two_attempts :: "action list" where
  "two_attempts =
     [Buffer_check, Buffer_record sample_message one_buffered, Ticker_fire, Tick]"

section \<open>Auxiliary facts\<close>

lemma statReqDrop_credit: "statReqDrop s m = credit Cat_dropped (NumberFramed s) m"
  by (simp add: statReqDrop_def statReqTotalUnsync_def credit_def Let_def)

lemma statReqErr_credit: "statReqErr s m = credit Cat_cancelled (NumberFramed s) m"
  by (simp add: statReqErr_def statReqTotalUnsync_def credit_def Let_def)

lemma statReqRej_credit: "statReqRej s m = credit Cat_rejected (NumberFramed s) m"
  by (simp add: statReqRej_def statReqTotalUnsync_def credit_def Let_def)

lemma statReqSuccess_credit: "statReqSuccess s m = credit Cat_successful (NumberFramed s) m"
  by (simp add: statReqSuccess_def statReqTotalUnsync_def credit_def Let_def)

lemmas statReq_credit =
  statReqDrop_credit statReqErr_credit statReqRej_credit statReqSuccess_credit

lemma AddInt32_credit: "AddInt32 d (credit k n m) = credit k n (AddInt32 d m)"
  by (simp add: AddInt32_def credit_def)

lemma AddInt32_inverse: "AddInt32 (- 1) (AddInt32 1 m) = m"
  by (simp add: AddInt32_def)

lemma syncWorker_post_credit:
  "syncWorker_post r b m = credit (classify (shape r)) (NumberFramed b) m"
  by (cases r) (simp_all add: syncWorker_post_def shape_def classify_def statReq_credit)

lemma run_invariant:
  assumes "run cfg sched w0 = Some w" and "P w0"
    and "\<And>a v v'. P v \<Longrightarrow> step cfg a v = Some v' \<Longrightarrow> P v'"
  shows "P w"
  using assms(1,2)
proof (induction sched arbitrary: w0)
  case Nil
  then show ?case by simp
next
  case (Cons a sched)
  then obtain v where v: "step cfg a w0 = Some v" and r: "run cfg sched v = Some w"
    by (auto split: option.splits)
  from assms(3)[OF Cons.prems(2) v] have "P v" .
  from Cons.IH[OF r this] show ?case .
qed

lemma execution_invariant:
  assumes "execution mini cfg sched = Some w"
    and "\<And>gs m. NewClient mini cfg = (gs, Inr m) \<Longrightarrow> P (boot gs m)"
    and "\<And>a v v'. P v \<Longrightarrow> step cfg a v = Some v' \<Longrightarrow> P v'"
  shows "P w"
proof -
  from assms(1) obtain gs m where n: "NewClient mini cfg = (gs, Inr m)"
    and r: "run cfg sched (boot gs m) = Some w"
    by (auto simp: execution_def split: prod.splits sum.splits)
  show ?thesis
  proof (rule run_invariant [where P = P, OF r])
    show "P (boot gs m)" by (rule assms(2) [OF n])
  next
    fix a v v' assume "P v" "step cfg a v = Some v'"
    then show "P v'" by (rule assms(3))
  qed
qed

lemma Suc_length_remove1_mem:
  "x \<in> set xs \<Longrightarrow> Suc (length (remove1 x xs)) = length xs"
  by (induction xs) auto

lemma int_length_remove1:
  "x \<in> set xs \<Longrightarrow> int (length (remove1 x xs)) = int (length xs) - 1"
  using Suc_length_remove1_mem [of x xs] by linarith

lemma length_remove1_less:
  "x \<in> set xs \<Longrightarrow> length (remove1 x xs) < length xs"
  using Suc_length_remove1_mem [of x xs] by linarith

lemma filter_remove1_other:
  "\<not> P x \<Longrightarrow> filter P (remove1 x xs) = filter P xs"
  by (induction xs) auto

lemma length_filter_remove1:
  "x \<in> set xs \<Longrightarrow> P x \<Longrightarrow> Suc (length (filter P (remove1 x xs))) = length (filter P xs)"
  by (induction xs) auto

lemma spawned_append: "spawned (es @ fs) = spawned es @ spawned fs"
  by (induction es rule: spawned.induct) simp_all

lemma received_append: "received (es @ fs) = received es + received fs"
  by (induction es rule: received.induct) simp_all

subsection \<open>Tokens\<close>

lemmas token_defs = token_inv_def supply_ok_def supplied_def tokens_def

lemma token_inv_step:
  "token_inv cfg w \<Longrightarrow> step cfg a w = Some w' \<Longrightarrow> token_inv cfg w'"
  by (erule step.elims)
     (auto simp: token_defs enter_def dispatched_def int_length_remove1 Let_def
       split: supplier.splits option.splits if_splits nat.splits sum.splits)

lemma token_inv_boot: "token_inv cfg (boot gs m)"
  by (simp add: token_defs boot_def)

lemma finalize_kept [simp]:
  "finalize (Done m) = finalize m"
  "finalize (AddInt32 d m) = finalize m"
  "finalize (fst (dispatch b sel m)) = finalize m"
  "finalize (syncWorker_post r b m) = finalize m"
  by (auto simp: Done_def AddInt32_def dispatch_def syncWorker_post_def statReq_credit credit_def
      split: acquire.splits sum.splits)

lemma finalize_Close: "Close m = Inr m' \<Longrightarrow> finalize m'"
  by (auto simp: Close_def split: option.splits if_splits)

lemma cancel_ok_step: "cancel_ok w \<Longrightarrow> step cfg a w = Some w' \<Longrightarrow> cancel_ok w'"
  by (erule step.elims)
     (auto simp: cancel_ok_def enter_def dispatched_def Let_def
       dest: finalize_Close
       split: supplier.splits option.splits if_splits nat.splits sum.splits)

lemma cancel_ok_boot: "cancel_ok (boot gs m)"
  by (simp add: cancel_ok_def boot_def)

lemma token_inv_execution:
  assumes "execution mini cfg sched = Some w"
  shows "token_inv cfg w \<and> cancel_ok w"
  by (rule execution_invariant [OF assms, where P = "\<lambda>w. token_inv cfg w \<and> cancel_ok w"])
     (auto simp: token_inv_boot cancel_ok_boot intro: token_inv_step cancel_ok_step)

lemma step_tokens:
  assumes "step cfg a w = Some w'"
  shows "(tokens w < tokens w' \<longrightarrow>
            (\<exists>who b. a = Dispatch who b (Some From_supply))
            \<and> tokens w' = tokens w + 1 \<and> supplied w' = supplied w + 1)
         \<and> (supplied w' \<noteq> supplied w \<longrightarrow> (\<exists>who b. a = Dispatch who b (Some From_supply)))
         \<and> ((\<exists>who b. a = Dispatch who b (Some From_delivery)) \<longrightarrow>
              Releasing \<in> set (deliveries w) \<and> tokens w' = tokens w)
         \<and> (posting w < posting w' \<longrightarrow> (\<exists>who b src. a = Dispatch who b (Some src)))
         \<and> (tokens w' < tokens w \<longrightarrow> a = Release_cancel \<and> finalize (client w))"
  using assms
  by (elim step.elims)
     (auto simp: tokens_def supplied_def posting_def enter_def dispatched_def Let_def
        Suc_length_remove1_mem filter_remove1_other
       dest: length_remove1_less length_filter_remove1 [where P = is_Posting]
       split: supplier.splits option.splits if_splits nat.splits sum.splits)

lemma step_received:
  assumes "step cfg a w = Some w'"
  shows "received (trace w') =
    received (trace w) + (case a of Dispatch who b (Some src) \<Rightarrow> 1 | _ \<Rightarrow> 0)"
  using assms
  by (elim step.elims)
     (auto simp: enter_def dispatched_def dispatch_def received_append Let_def
       split: supplier.splits option.splits if_splits nat.splits sum.splits)

lemma step_received_only_acquire:
  assumes "step cfg a w = Some w'"
  shows "((\<exists>who b src. a = Dispatch who b (Some src)) \<longrightarrow>
            received (trace w') = received (trace w) + 1)
         \<and> (received (trace w') \<noteq> received (trace w) \<longrightarrow>
              (\<exists>who b src. a = Dispatch who b (Some src)))"
  using step_received [OF assms]
  by (auto split: action.splits option.splits)

subsection \<open>No capacity\<close>

lemma not_parked_idle:
  "cfg_Concurrency cfg \<le> 0 \<Longrightarrow> token_inv cfg w \<Longrightarrow> idle w \<Longrightarrow> \<not> parked w"
  by (auto simp: token_defs idle_def parked_def supply_parked_def split: supplier.splits)

lemma idle_step:
  "cfg_Concurrency cfg \<le> 0 \<Longrightarrow> token_inv cfg w \<Longrightarrow> idle w \<Longrightarrow> step cfg a w = Some w'
    \<Longrightarrow> idle w'"
  by (erule step.elims)
     (auto simp: token_defs idle_def enter_def dispatched_def dispatch_def spawned_append Let_def
       split: supplier.splits option.splits if_splits nat.splits sum.splits)

lemma idle_boot: "idle (boot gs m)"
  by (simp add: idle_def boot_def supplied_def)

lemma idle_execution:
  assumes "cfg_Concurrency cfg \<le> 0" and "execution mini cfg sched = Some w"
  shows "token_inv cfg w \<and> idle w"
  by (rule execution_invariant [OF assms(2), where P = "\<lambda>w. token_inv cfg w \<and> idle w"])
     (auto simp: token_inv_boot idle_boot intro: token_inv_step idle_step [OF assms(1)])

subsection \<open>Counters\<close>

lemma NewClient_Inr:
  "NewClient mini cfg = (gs, Inr m) \<Longrightarrow> balanced m \<and> Concurrency m = 0 \<and> \<not> finalize m"
  by (auto simp: NewClient_def started_def new_m_def zero_Stats_def balanced_def Let_def
        Stats.extend_def Client.fields_def
      split: sum.splits TimeTriggerBehavior.splits if_splits)

lemma balanced_credit: "balanced m \<Longrightarrow> balanced (credit k n m)"
  by (cases k) (auto simp: balanced_def credit_def algebra_simps)

lemma balanced_other [simp]:
  "balanced (Done m) = balanced m"
  "balanced (AddInt32 d m) = balanced m"
  "balanced (m\<lparr>ticker := t\<rparr>) = balanced m"
  "balanced (m\<lparr>finalize := f\<rparr>) = balanced m"
  "balanced (m\<lparr>finalizeDone := n\<rparr>) = balanced m"
  by (simp_all add: balanced_def Done_def AddInt32_def)

lemma balanced_Statistics [simp]: "balanced (Statistics m) = balanced m"
  by (simp add: balanced_def Statistics_def Stats.truncate_def)

lemma balanced_dispatch: "balanced m \<Longrightarrow> balanced (fst (dispatch b sel m))"
  by (cases sel) (simp_all add: dispatch_def statReq_credit balanced_credit)

lemma balanced_post: "balanced m \<Longrightarrow> balanced (syncWorker_post r b m)"
  by (simp add: syncWorker_post_credit balanced_credit)

lemma balanced_Close: "balanced m \<Longrightarrow> Close m = Inr m' \<Longrightarrow> balanced m'"
  by (auto simp: Close_def split: option.splits if_splits)

lemma balanced_step:
  "balanced (client w) \<Longrightarrow> step cfg a w = Some w' \<Longrightarrow> balanced (client w')"
  by (erule step.elims)
     (auto simp: enter_def dispatched_def Let_def balanced_dispatch balanced_post
       dest: balanced_Close
       split: supplier.splits option.splits if_splits nat.splits sum.splits)

lemma balanced_execution:
  assumes "execution mini cfg sched = Some w"
  shows "balanced (client w)"
  by (rule execution_invariant [OF assms, where P = "\<lambda>w. balanced (client w)"])
     (auto simp: boot_def dest: NewClient_Inr intro: balanced_step)

lemma counters_other [simp]:
  "counters (Done m) = counters m"
  "counters (AddInt32 d m) = counters m"
  "counters (m\<lparr>ticker := t\<rparr>) = counters m"
  "counters (m\<lparr>finalize := f\<rparr>) = counters m"
  "counters (m\<lparr>finalizeDone := n\<rparr>) = counters m"
  by (simp_all add: counters_def Statistics_def Stats.truncate_def Done_def AddInt32_def)

lemma counters_credit: "counters (credit k n m) = credit k n (counters m)"
  by (simp add: counters_def Statistics_def Stats.truncate_def credit_def)

lemma counters_Close: "Close m = Inr m' \<Longrightarrow> counters m' = counters m"
  by (auto simp: Close_def split: option.splits if_splits)

lemma counters_step:
  "step cfg a w = Some w' \<Longrightarrow> counters (client w') = counted a (counters (client w))"
  by (erule step.elims)
     (auto simp: counted_def enter_def dispatched_def dispatch_def Let_def statReq_credit
        counters_credit syncWorker_post_credit
       dest: counters_Close
       split: supplier.splits option.splits if_splits nat.splits sum.splits)

subsection \<open>The gauge\<close>

lemma length_replace1:
  "x \<in> set xs \<Longrightarrow> length (y # remove1 x xs) = length xs"
  using Suc_length_remove1_mem [of x xs] by simp

lemma gauge_other [simp]:
  "Concurrency (Done m) = Concurrency m"
  "Concurrency (fst (dispatch b sel m)) = Concurrency m"
  "Concurrency (syncWorker_post r b m) = Concurrency m"
  by (auto simp: Done_def dispatch_def syncWorker_post_credit statReq_credit credit_def
      split: acquire.splits)

lemma gauge_Close: "Close m = Inr m' \<Longrightarrow> Concurrency m' = Concurrency m"
  by (auto simp: Close_def split: option.splits if_splits)

lemma gauge_step:
  "Concurrency (client w) = of_nat (length (attempts w)) \<Longrightarrow> step cfg a w = Some w'
    \<Longrightarrow> Concurrency (client w') = of_nat (length (attempts w'))"
  by (erule step.elims)
     (auto simp: enter_def dispatched_def AddInt32_def Let_def length_replace1
        Suc_length_remove1_mem [symmetric]
       dest: gauge_Close
       split: supplier.splits option.splits if_splits nat.splits sum.splits)

text \<open>
  What the gauge measures: the calls of \<open>maybeWork\<close> in flight (as an \<open>int32\<close>),
  whether or not they have started a request.
\<close>

lemma gauge_counts_attempts:
  assumes "execution mini cfg sched = Some w"
  shows "Concurrency (client w) = of_nat (length (attempts w))"
  by (rule execution_invariant [OF assms,
        where P = "\<lambda>w. Concurrency (client w) = of_nat (length (attempts w))"])
     (auto simp: boot_def dest: NewClient_Inr intro: gauge_step)

subsection \<open>A call as a run of steps\<close>

text \<open>
  A call of \<open>maybeWork\<close> that no other goroutine interleaves with is the steps
  \<open>Dispatch\<close> and \<open>Leave\<close> after the entry, and gives the client and the effects
  of the function \<open>maybeWork\<close>.
\<close>

lemma maybeWork_default_steps:
  assumes "NumberFramed b = 0 \<or> \<not> parked w"
  shows "run cfg [Dispatch who b None, Leave who] (enter who w) =
    Some (w\<lparr>client := fst (maybeWork b No_token (client w)),
            trace := trace w @ snd (maybeWork b No_token (client w)),
            flusher := (if who = By_tick then Tick_wait else flusher w)\<rparr>)"
  using assms
  by (auto simp: enter_def dispatched_def maybeWork_def parked_def supply_parked_def Let_def
      split: prod.splits)

lemma maybeWork_token_steps:
  assumes "NumberFramed b \<noteq> 0" and "supplier w = Supply_select i"
  shows "run cfg [Dispatch who b (Some From_supply), Leave who] (enter who w) =
    Some (w\<lparr>client := fst (maybeWork b Token_ready (client w)),
            trace := trace w @ snd (maybeWork b Token_ready (client w)),
            flusher := (if who = By_tick then Tick_wait else flusher w),
            supplier := Supply_test (i + 1),
            deliveries := Posting b # deliveries w\<rparr>)"
  using assms
  by (auto simp: enter_def dispatched_def maybeWork_def dispatch_def Let_def)

subsection \<open>Evaluation\<close>

lemmas eval_defs = execution_def NewClient_def started_def new_m_def zero_Stats_def boot_def
  enter_def dispatched_def dispatch_def Done_def AddInt32_def NewTicker_def Close_def
  syncWorker_post_def statReqDrop_def statReqErr_def statReqRej_def statReqSuccess_def
  statReqTotalUnsync_def Stats.extend_def Client.fields_def Let_def parked_def supply_parked_def
  StatusNoContent_def

lemmas sample_defs = sample_mini_def sample_message_def one_buffered_def one_record_def
  two_records_def no_record_def no_content_def one_worker_def one_worker_periodic_def
  no_worker_def negative_period_never_def negative_period_periodic_def
  zero_period_periodic_def deliver_and_drop_def one_attempt_def two_attempts_def

section \<open>The claims\<close>

subsection \<open>C1\<close>

text \<open>
  Claim C1. The capacity is a count, not negative. In every execution the number of
  admission tokens in circulation never exceeds \<open>Concurrency\<close>, also when the token
  the supplier is offering in its select is counted. The token-supply task completes
  at most \<open>Concurrency\<close> sends: exactly \<open>Concurrency\<close> once it has left its loop, and
  it returns earlier only after \<open>finalize\<close> was closed. Tokens are added only by
  initial insertion and by a delivery task's return path: a token enters circulation
  only with a send of the supplier, and the other tokens a flush attempt receives come
  from a delivery task parked in its return, which leaves the number in circulation as
  it is. Only the acquire step removes one: every receive on the token channel is a
  flush attempt's, and only such a receive starts a delivery task. (A delivery task
  that gives up its return at shutdown takes its token out of circulation with it.)
\<close>

theorem tokens_bounded:
  assumes "0 \<le> cfg_Concurrency cfg" and "execution mini cfg sched = Some w"
  shows "int (tokens w) \<le> supplied w
    \<and> supplied w \<le> cfg_Concurrency cfg
    \<and> int (tokens w) \<le> cfg_Concurrency cfg
    \<and> int (tokens w) + (if supply_parked w then 1 else 0) \<le> cfg_Concurrency cfg
    \<and> (\<forall>i. supplier w = Supply_finished i \<longrightarrow> i = cfg_Concurrency cfg)
    \<and> (\<forall>i. supplier w = Supply_cancelled i \<longrightarrow> finalize (client w))
    \<and> (\<forall>a w'. step cfg a w = Some w' \<longrightarrow>
          (tokens w < tokens w' \<longrightarrow>
             (\<exists>who b. a = Dispatch who b (Some From_supply))
             \<and> tokens w' = tokens w + 1 \<and> supplied w' = supplied w + 1)
          \<and> (supplied w' \<noteq> supplied w \<longrightarrow> (\<exists>who b. a = Dispatch who b (Some From_supply)))
          \<and> ((\<exists>who b. a = Dispatch who b (Some From_delivery)) \<longrightarrow>
               Releasing \<in> set (deliveries w) \<and> tokens w' = tokens w)
          \<and> ((\<exists>who b src. a = Dispatch who b (Some src)) \<longrightarrow>
               received (trace w') = received (trace w) + 1)
          \<and> (received (trace w') \<noteq> received (trace w) \<longrightarrow>
               (\<exists>who b src. a = Dispatch who b (Some src)))
          \<and> (posting w < posting w' \<longrightarrow> (\<exists>who b src. a = Dispatch who b (Some src)))
          \<and> (tokens w' < tokens w \<longrightarrow> a = Release_cancel \<and> finalize (client w)))"
proof -
  from token_inv_execution [OF assms(2)] have inv: "token_inv cfg w" and c: "cancel_ok w"
    by simp_all
  from assms(1) have m: "max 0 (cfg_Concurrency cfg) = cfg_Concurrency cfg" by simp
  from inv have t: "int (tokens w) \<le> supplied w" by (simp add: token_inv_def)
  from inv m have s: "supplied w \<le> cfg_Concurrency cfg"
    by (auto simp: token_defs split: supplier.splits)
  from inv m
  have p: "int (tokens w) + (if supply_parked w then 1 else 0) \<le> cfg_Concurrency cfg"
    by (auto simp: token_defs supply_parked_def split: supplier.splits)
  from inv m have f: "\<forall>i. supplier w = Supply_finished i \<longrightarrow> i = cfg_Concurrency cfg"
    by (auto simp: token_defs)
  from c have x: "\<forall>i. supplier w = Supply_cancelled i \<longrightarrow> finalize (client w)"
    by (auto simp: cancel_ok_def)
  from t s have b: "int (tokens w) \<le> cfg_Concurrency cfg" by simp
  have st: "\<forall>a w'. step cfg a w = Some w' \<longrightarrow>
          (tokens w < tokens w' \<longrightarrow>
             (\<exists>who b. a = Dispatch who b (Some From_supply))
             \<and> tokens w' = tokens w + 1 \<and> supplied w' = supplied w + 1)
          \<and> (supplied w' \<noteq> supplied w \<longrightarrow> (\<exists>who b. a = Dispatch who b (Some From_supply)))
          \<and> ((\<exists>who b. a = Dispatch who b (Some From_delivery)) \<longrightarrow>
               Releasing \<in> set (deliveries w) \<and> tokens w' = tokens w)
          \<and> ((\<exists>who b src. a = Dispatch who b (Some src)) \<longrightarrow>
               received (trace w') = received (trace w) + 1)
          \<and> (received (trace w') \<noteq> received (trace w) \<longrightarrow>
               (\<exists>who b src. a = Dispatch who b (Some src)))
          \<and> (posting w < posting w' \<longrightarrow> (\<exists>who b src. a = Dispatch who b (Some src)))
          \<and> (tokens w' < tokens w \<longrightarrow> a = Release_cancel \<and> finalize (client w))"
  proof (intro allI impI)
    fix a w' assume h: "step cfg a w = Some w'"
    from step_tokens [OF h] step_received_only_acquire [OF h]
    show "(tokens w < tokens w' \<longrightarrow>
             (\<exists>who b. a = Dispatch who b (Some From_supply))
             \<and> tokens w' = tokens w + 1 \<and> supplied w' = supplied w + 1)
          \<and> (supplied w' \<noteq> supplied w \<longrightarrow> (\<exists>who b. a = Dispatch who b (Some From_supply)))
          \<and> ((\<exists>who b. a = Dispatch who b (Some From_delivery)) \<longrightarrow>
               Releasing \<in> set (deliveries w) \<and> tokens w' = tokens w)
          \<and> ((\<exists>who b src. a = Dispatch who b (Some src)) \<longrightarrow>
               received (trace w') = received (trace w) + 1)
          \<and> (received (trace w') \<noteq> received (trace w) \<longrightarrow>
               (\<exists>who b src. a = Dispatch who b (Some src)))
          \<and> (posting w < posting w' \<longrightarrow> (\<exists>who b src. a = Dispatch who b (Some src)))
          \<and> (tokens w' < tokens w \<longrightarrow> a = Release_cancel \<and> finalize (client w))"
      by blast
  qed
  from t s b p f x st show ?thesis by blast
qed

text \<open>
  With capacity one, after a delivery and a drop, one token is in circulation, the
  supplier has handed over one, and one receive on the token channel has succeeded.
\<close>

theorem tokens_bounded_witness:
  "0 \<le> cfg_Concurrency one_worker
   \<and> execution (Inr sample_mini) one_worker deliver_and_drop \<noteq> None
   \<and> tokens (the (execution (Inr sample_mini) one_worker deliver_and_drop)) = 1
   \<and> supplied (the (execution (Inr sample_mini) one_worker deliver_and_drop)) = 1
   \<and> cfg_Concurrency one_worker = 1
   \<and> received (trace (the (execution (Inr sample_mini) one_worker deliver_and_drop))) = 1"
proof -
  have z: "0 \<le> cfg_Concurrency one_worker" and o: "cfg_Concurrency one_worker = 1"
    by (simp_all add: one_worker_def)
  obtain w where h: "execution (Inr sample_mini) one_worker deliver_and_drop = Some w"
    by (simp add: eval_defs sample_defs)
  have t: "0 < tokens w" and r: "received (trace w) = 1"
    using h by (auto simp: eval_defs sample_defs tokens_def)
  from tokens_bounded [OF z h] have "int (tokens w) \<le> supplied w"
    and "supplied w \<le> cfg_Concurrency one_worker" by blast+
  with t o z r h show ?thesis by simp
qed

subsection \<open>C2\<close>

text \<open>
  Claim C2. At every reachable state the message counters satisfy
  successful + rejected + cancelled + dropped = total and the request counters satisfy
  the same identity (in the arithmetic of \<open>uint64\<close>, which is what a snapshot
  compares; a state is what \<open>Statistics\<close> can return, the updates being atomic under
  \<open>statLock\<close>). A step changes the counters only by crediting the record count of one
  batch and one request to one category and to the totals, in one atomic step, and
  each of the four update functions is such a credit.
\<close>

theorem counters_balanced:
  assumes "execution mini cfg sched = Some w"
  shows "Successful (client w) + Rejected (client w) + Cancelled (client w) + Dropped (client w)
           = Total (client w)
    \<and> SuccessRequests (client w) + RejectRequests (client w) + CancelRequests (client w)
           + DroppedRequests (client w) = TotalRequests (client w)
    \<and> balanced (Statistics (client w))
    \<and> (\<forall>a w'. step cfg a w = Some w' \<longrightarrow>
          counters (client w') = counted a (counters (client w)))
    \<and> statReqSuccess s m = credit Cat_successful (NumberFramed s) m
    \<and> statReqErr s m = credit Cat_cancelled (NumberFramed s) m
    \<and> statReqRej s m = credit Cat_rejected (NumberFramed s) m
    \<and> statReqDrop s m = credit Cat_dropped (NumberFramed s) m"
proof -
  have b: "balanced (client w)" by (rule balanced_execution [OF assms])
  then have "balanced (Statistics (client w))" by simp
  moreover have "\<forall>a w'. step cfg a w = Some w' \<longrightarrow>
      counters (client w') = counted a (counters (client w))"
    by (simp add: counters_step)
  ultimately show ?thesis using b by (simp add: balanced_def statReq_credit)
qed

text \<open>One record delivered and two dropped: the totals are 3 messages and 2 requests.\<close>

theorem counters_balanced_witness:
  "execution (Inr sample_mini) one_worker deliver_and_drop \<noteq> None
   \<and> Successful (client (the (execution (Inr sample_mini) one_worker deliver_and_drop))) = 1
   \<and> Dropped (client (the (execution (Inr sample_mini) one_worker deliver_and_drop))) = 2
   \<and> Total (client (the (execution (Inr sample_mini) one_worker deliver_and_drop))) = 3
   \<and> TotalRequests (client (the (execution (Inr sample_mini) one_worker deliver_and_drop))) = 2
   \<and> balanced (Statistics (client (the (execution (Inr sample_mini) one_worker deliver_and_drop))))"
proof -
  obtain w where h: "execution (Inr sample_mini) one_worker deliver_and_drop = Some w"
    by (simp add: eval_defs sample_defs)
  have v: "Successful (client w) = 1 \<and> Dropped (client w) = 2 \<and> Total (client w) = 3
      \<and> TotalRequests (client w) = 2"
    using h by (auto simp: eval_defs sample_defs)
  from counters_balanced [OF h, where s = one_buffered and m = "client w"]
  have "balanced (Statistics (client w))" by blast
  with v h show ?thesis by simp
qed

subsection \<open>C3\<close>

text \<open>
  Claim C3 fails on the code. Under \<open>TimeTriggerNever\<close>, under
  \<open>TimeTriggerImmediate\<close>, and under \<open>TimeTriggerPeriodic\<close> with a zero period
  (normalized to immediate), \<open>NewClient\<close> leaves \<open>ticker\<close> nil, and \<open>Close\<close>
  calls \<open>Stop\<close> through it before it closes \<open>finalize\<close>: the call panics, the
  shutdown signal is never broadcast. With a positive period, where a ticker exists, the
  same call goes through.
\<close>

theorem Close_without_ticker_panics:
  "NewClient_Close (Inr mc) (cfg\<lparr>TimeTrigger := TimeTriggerNever\<rparr>) = Inl nil_dereference
   \<and> NewClient_Close (Inr mc) (cfg\<lparr>TimeTrigger := TimeTriggerImmediate\<rparr>) = Inl nil_dereference
   \<and> NewClient_Close (Inr mc) (cfg\<lparr>TimeTrigger := TimeTriggerPeriodic, Period := 0\<rparr>)
       = Inl nil_dereference
   \<and> \<not> isl (NewClient_Close (Inr mc) (cfg\<lparr>TimeTrigger := TimeTriggerPeriodic, Period := 1\<rparr>))"
  by (simp add: NewClient_Close_def NewClient_def started_def new_m_def Close_def Let_def
      Stats.extend_def Client.fields_def NewTicker_def)

subsection \<open>C4\<close>

text \<open>
  Claim C4. A delivery task credits the batch to exactly one category, and the category
  is a function of the shape of what \<open>Post\<close> returned: cancelled when there is an
  error and no response, successful when the status code is 204, rejected for every
  other status code.
\<close>

theorem syncWorker_classifies:
  "syncWorker_post r b m = credit (classify (shape r)) (NumberFramed b) m
   \<and> fst (syncWorker b r rel m) = Done (credit (classify (shape r)) (NumberFramed b) m)
   \<and> classify (shape (Inl err)) = Cat_cancelled
   \<and> classify (shape (Inr resp)) =
       (if StatusCode resp = StatusNoContent then Cat_successful else Cat_rejected)
   \<and> step cfg (Post_return b r) w =
       (if Posting b \<in> set (deliveries w)
        then Some (w\<lparr>client := credit (classify (shape r)) (NumberFramed b) (client w),
                     deliveries := Accounted # remove1 (Posting b) (deliveries w),
                     trace := trace w @ [Post_call b]\<rparr>)
        else None)"
  by (simp add: syncWorker_def syncWorker_post_credit shape_def classify_def)

text \<open>The three shapes: 204, 503 and a transport error.\<close>

theorem syncWorker_classifies_witness:
  "fst (syncWorker one_record (Inr no_content) Token_returned (new_m sample_mini one_worker))
     = Done (credit Cat_successful 1 (new_m sample_mini one_worker))
   \<and> fst (syncWorker one_record (Inr (no_content\<lparr>StatusCode := 503\<rparr>)) Token_returned
        (new_m sample_mini one_worker))
     = Done (credit Cat_rejected 1 (new_m sample_mini one_worker))
   \<and> fst (syncWorker one_record (Inl (Error ''timeout'')) Token_returned
        (new_m sample_mini one_worker))
     = Done (credit Cat_cancelled 1 (new_m sample_mini one_worker))"
  using syncWorker_classifies [of "Inr no_content" one_record "new_m sample_mini one_worker"
      Token_returned _ no_content]
    syncWorker_classifies [of "Inr (no_content\<lparr>StatusCode := 503\<rparr>)" one_record
      "new_m sample_mini one_worker" Token_returned _ "no_content\<lparr>StatusCode := 503\<rparr>"]
    syncWorker_classifies [of "Inl (Error ''timeout'')" one_record
      "new_m sample_mini one_worker" Token_returned "Error ''timeout''"]
  by (simp add: one_record_def no_content_def StatusNoContent_def)

subsection \<open>C5\<close>

text \<open>
  Claim C5. A flush attempt on a batch with records that finds no sender parked on the
  token channel takes the default branch of its select: the batch is credited as
  dropped with its record count and one request, the scheduler is yielded, no delivery
  task is started, and the gauge is back at its value. The select never blocks: in
  every state one of its branches can be taken.
\<close>

theorem saturated_attempt_drops:
  "NumberFramed b \<noteq> 0 \<Longrightarrow>
     maybeWork b No_token m
       = (credit Cat_dropped (NumberFramed b) m, [SwapBundle_call, Gosched])
     \<and> (Entered who \<in> set (attempts w) \<longrightarrow>
          (\<not> parked w \<longrightarrow>
             step cfg (Dispatch who b None) w =
               Some (dispatched who
                      (credit Cat_dropped (NumberFramed b) (client w), [Gosched]) w))
          \<and> (parked w \<longrightarrow> step cfg (Dispatch who b None) w = None)
          \<and> (step cfg (Dispatch who b None) w \<noteq> None
               \<or> step cfg (Dispatch who b (Some From_supply)) w \<noteq> None
               \<or> step cfg (Dispatch who b (Some From_delivery)) w \<noteq> None))"
  by (auto simp: maybeWork_def dispatch_def AddInt32_inverse statReq_credit AddInt32_credit
      parked_def supply_parked_def split: supplier.splits)

text \<open>
  A flush attempt that runs before the supplier has reached its select drops its two
  records.
\<close>

theorem saturated_attempt_drops_witness:
  "NumberFramed two_records \<noteq> 0
   \<and> execution (Inr sample_mini) one_worker one_attempt \<noteq> None
   \<and> Entered By_buffer \<in> set (attempts (the (execution (Inr sample_mini) one_worker one_attempt)))
   \<and> \<not> parked (the (execution (Inr sample_mini) one_worker one_attempt))
   \<and> map_option client (step one_worker (Dispatch By_buffer two_records None)
        (the (execution (Inr sample_mini) one_worker one_attempt)))
      = Some (credit Cat_dropped 2
          (client (the (execution (Inr sample_mini) one_worker one_attempt))))"
proof -
  obtain w where h: "execution (Inr sample_mini) one_worker one_attempt = Some w"
    by (simp add: eval_defs sample_defs)
  have n: "NumberFramed two_records \<noteq> 0" by (simp add: two_records_def)
  have e: "Entered By_buffer \<in> set (attempts w)" and p: "\<not> parked w"
    using h by (auto simp: eval_defs sample_defs)
  from saturated_attempt_drops [OF n, of _ By_buffer w one_worker] e p
  have "step one_worker (Dispatch By_buffer two_records None) w =
      Some (dispatched By_buffer
        (credit Cat_dropped (NumberFramed two_records) (client w), [Gosched]) w)"
    by blast
  then show ?thesis using h n e p by (simp add: dispatched_def two_records_def)
qed

subsection \<open>C6\<close>

text \<open>
  Claim C6. On a closed client \<open>BufferMessage\<close> returns the "client already Closed"
  error, does not call the collaborator and changes nothing. Otherwise it hands the
  record to the collaborator, returns nil, and makes a flush attempt exactly when the
  reported buffered volume has reached \<open>RequestSizeTrigger\<close> or the policy is
  immediate; it never waits for a request or for a token to be taken.
\<close>

theorem BufferMessage_closed_or_flushes:
  "(finalize m \<longrightarrow> BufferMessage msg s b sel m = (Some client_closed, m, []))
   \<and> (\<not> finalize m \<longrightarrow>
        BufferMessage msg s b sel m =
          (if Buffered s \<ge> RequestSizeTrigger m \<or> timeTrigger m = TimeTriggerImmediate
           then (None, fst (maybeWork b sel m), BufferMessage_call msg # snd (maybeWork b sel m))
           else (None, m, [BufferMessage_call msg])))
   \<and> (SwapBundle_call \<in> set (snd (snd (BufferMessage msg s b sel m))) \<longleftrightarrow>
        \<not> finalize m
        \<and> (Buffered s \<ge> RequestSizeTrigger m \<or> timeTrigger m = TimeTriggerImmediate))
   \<and> (BufferMessage_call msg \<in> set (snd (snd (BufferMessage msg s b sel m))) \<longleftrightarrow> \<not> finalize m)
   \<and> Post_call b' \<notin> set (snd (snd (BufferMessage msg s b sel m)))
   \<and> Bucket_send \<notin> set (snd (snd (BufferMessage msg s b sel m)))
   \<and> (finalize (client w) \<longrightarrow> step cfg Buffer_check w = Some w)"
  by (auto simp: BufferMessage_def maybeWork_def dispatch_def Let_def split: acquire.splits)

text \<open>
  A closed client; an open one whose record reaches the threshold of 40 bytes; an open
  one whose record stays below it.
\<close>

theorem BufferMessage_closed_or_flushes_witness:
  "finalize ((new_m sample_mini one_worker)\<lparr>finalize := True\<rparr>)
   \<and> BufferMessage sample_message one_buffered one_record Token_ready
        ((new_m sample_mini one_worker)\<lparr>finalize := True\<rparr>)
      = (Some client_closed, (new_m sample_mini one_worker)\<lparr>finalize := True\<rparr>, [])
   \<and> \<not> finalize (new_m sample_mini one_worker)
   \<and> snd (snd (BufferMessage sample_message one_buffered one_record Token_ready
        (new_m sample_mini one_worker)))
      = [BufferMessage_call sample_message, SwapBundle_call, Bucket_recv, Go_syncWorker one_record]
   \<and> snd (snd (BufferMessage sample_message (one_buffered\<lparr>Buffered := 39\<rparr>) one_record Token_ready
        (new_m sample_mini one_worker)))
      = [BufferMessage_call sample_message]"
  using BufferMessage_closed_or_flushes [of "(new_m sample_mini one_worker)\<lparr>finalize := True\<rparr>"
      sample_message one_buffered one_record Token_ready]
    BufferMessage_closed_or_flushes [of "new_m sample_mini one_worker"
      sample_message one_buffered one_record Token_ready]
    BufferMessage_closed_or_flushes [of "new_m sample_mini one_worker"
      sample_message "one_buffered\<lparr>Buffered := 39\<rparr>" one_record Token_ready]
  by (simp add: new_m_def Stats.extend_def Client.fields_def one_worker_def one_buffered_def
      maybeWork_def dispatch_def one_record_def Let_def)

subsection \<open>C7\<close>

text \<open>
  Claim C7, as amended. Under the periodic behaviour a negative period makes the
  construction fail with the configuration error before any goroutine is started, and
  a zero period gives a client with the immediate policy and no ticker. Under the
  other two behaviours the period is not looked at: whatever it is, the construction
  succeeds and keeps the configured behaviour. An error of the collaborator's
  constructor is returned as it is, with nothing started.
\<close>

theorem NewClient_checks_period_when_periodic:
  "(TimeTrigger cfg = TimeTriggerPeriodic \<and> Period cfg < 0 \<longrightarrow>
      NewClient (Inr mc) cfg = ([], Inl negative_period))
   \<and> (TimeTrigger cfg = TimeTriggerPeriodic \<and> Period cfg = 0 \<longrightarrow>
        NewClient (Inr mc) cfg =
          ([Token_supply],
           Inr ((new_m mc cfg)\<lparr>timeTrigger := TimeTriggerImmediate, finalizeDone := 1\<rparr>)))
   \<and> (TimeTrigger cfg \<noteq> TimeTriggerPeriodic \<longrightarrow>
        NewClient (Inr mc) cfg =
          ([Token_supply],
           Inr ((new_m mc cfg)\<lparr>timeTrigger := TimeTrigger cfg, finalizeDone := 1\<rparr>)))
   \<and> NewClient (Inl err) cfg = ([], Inl err)"
  by (cases "TimeTrigger cfg")
     (simp_all add: NewClient_def started_def new_m_def Let_def Stats.extend_def Client.fields_def)

text \<open>The three cases at sample configurations.\<close>

theorem NewClient_checks_period_when_periodic_witness:
  "NewClient (Inr sample_mini) negative_period_periodic = ([], Inl negative_period)
   \<and> NewClient (Inr sample_mini) zero_period_periodic =
       ([Token_supply],
        Inr ((new_m sample_mini zero_period_periodic)
               \<lparr>timeTrigger := TimeTriggerImmediate, finalizeDone := 1\<rparr>))
   \<and> NewClient (Inr sample_mini) negative_period_never =
       ([Token_supply],
        Inr ((new_m sample_mini negative_period_never)
               \<lparr>timeTrigger := TimeTriggerNever, finalizeDone := 1\<rparr>))"
  using NewClient_checks_period_when_periodic [of negative_period_periodic sample_mini]
    NewClient_checks_period_when_periodic [of zero_period_periodic sample_mini]
    NewClient_checks_period_when_periodic [of negative_period_never sample_mini]
  by (simp add: negative_period_periodic_def zero_period_periodic_def negative_period_never_def)

text \<open>
  A period of -1 with \<open>TimeTriggerNever\<close>: the construction succeeds and the
  token-supply goroutine is started.
\<close>

theorem negative_period_accepted_without_timer:
  "Period negative_period_never < 0
   \<and> fst (NewClient (Inr sample_mini) negative_period_never) = [Token_supply]
   \<and> \<not> isl (snd (NewClient (Inr sample_mini) negative_period_never))"
  by (simp add: negative_period_never_def NewClient_def started_def new_m_def Let_def
      Stats.extend_def Client.fields_def)

subsection \<open>C8\<close>

text \<open>
  Claim C8 fails on the code. With capacity one, a size-triggered flush attempt and a
  timer-triggered one are both between lines 219 and 220: the gauge reads 2, and no
  request is in flight. The gauge counts the calls of \<open>maybeWork\<close> in flight
  (\<open>gauge_counts_attempts\<close>), which the capacity does not bound; the comment of the
  field says it is the number of concurrent requests.
\<close>

theorem gauge_above_capacity:
  "cfg_Concurrency one_worker_periodic = 1
   \<and> map_option gauge (execution (Inr sample_mini) one_worker_periodic two_attempts) = Some 2
   \<and> map_option tokens (execution (Inr sample_mini) one_worker_periodic two_attempts) = Some 0"
  by (simp add: eval_defs sample_defs gauge_def tokens_def)

subsection \<open>C9\<close>

text \<open>
  Claim C9. A flush attempt whose swapped-out batch has no framed record returns right
  after the swap: the client, its counters included, is as before (the gauge was raised
  by one and lowered again), the select on the token channel is not run, so no token
  is received and no sender is released.
\<close>

theorem empty_batch_is_skipped:
  "NumberFramed b = 0 \<Longrightarrow>
     dispatch b sel (AddInt32 1 m) = (AddInt32 1 m, [])
     \<and> maybeWork b sel m = (m, [SwapBundle_call])
     \<and> (Entered who \<in> set (attempts w) \<longrightarrow>
          step cfg (Dispatch who b None) w =
            Some (w\<lparr>attempts := Leaving who # remove1 (Entered who) (attempts w),
                    trace := trace w @ [SwapBundle_call]\<rparr>)
          \<and> step cfg (Dispatch who b (Some src)) w = None)"
  by (cases src) (simp_all add: maybeWork_def dispatch_def AddInt32_inverse dispatched_def)

text \<open>
  An empty batch while the supplier is parked with a token: the token stays with the
  supplier.
\<close>

theorem empty_batch_is_skipped_witness:
  "NumberFramed no_record = 0
   \<and> maybeWork no_record Token_ready (new_m sample_mini one_worker)
      = (new_m sample_mini one_worker, [SwapBundle_call])
   \<and> execution (Inr sample_mini) one_worker (Supply_step # one_attempt) \<noteq> None
   \<and> Entered By_buffer
       \<in> set (attempts (the (execution (Inr sample_mini) one_worker (Supply_step # one_attempt))))
   \<and> parked (the (execution (Inr sample_mini) one_worker (Supply_step # one_attempt)))
   \<and> step one_worker (Dispatch By_buffer no_record (Some From_supply))
        (the (execution (Inr sample_mini) one_worker (Supply_step # one_attempt))) = None
   \<and> map_option client (step one_worker (Dispatch By_buffer no_record None)
        (the (execution (Inr sample_mini) one_worker (Supply_step # one_attempt))))
      = Some (client (the (execution (Inr sample_mini) one_worker (Supply_step # one_attempt))))
   \<and> map_option supplier (step one_worker (Dispatch By_buffer no_record None)
        (the (execution (Inr sample_mini) one_worker (Supply_step # one_attempt))))
      = Some (Supply_select 0)"
proof -
  obtain w where h: "execution (Inr sample_mini) one_worker (Supply_step # one_attempt) = Some w"
    by (simp add: eval_defs sample_defs)
  have n: "NumberFramed no_record = 0" by (simp add: no_record_def)
  have e: "Entered By_buffer \<in> set (attempts w)" and p: "parked w"
    and s: "supplier w = Supply_select 0"
    using h by (auto simp: eval_defs sample_defs)
  from empty_batch_is_skipped [OF n, of Token_ready "new_m sample_mini one_worker"
      By_buffer w one_worker From_supply] e
  show ?thesis using h n p s by simp
qed

subsection \<open>C10\<close>

text \<open>
  Claim C10. The construction does not look at the capacity, so a capacity of zero is
  accepted. In every execution with capacity zero no token is ever handed over and no
  delivery task is ever started; no sender is ever parked on the token channel, so a
  flush attempt on a batch with records can only take the default branch, which
  credits a drop.
\<close>

theorem zero_capacity_always_drops:
  assumes "cfg_Concurrency cfg = 0"
  shows "NewClient mini (cfg\<lparr>cfg_Concurrency := n\<rparr>) = NewClient mini cfg
    \<and> (\<not> isl mini \<and> (TimeTrigger cfg = TimeTriggerPeriodic \<longrightarrow> 0 \<le> Period cfg) \<longrightarrow>
         \<not> isl (snd (NewClient mini cfg)) \<and> Token_supply \<in> set (fst (NewClient mini cfg)))
    \<and> (execution mini cfg sched = Some w \<longrightarrow>
         tokens w = 0 \<and> supplied w = 0 \<and> spawned (trace w) = [] \<and> \<not> parked w
         \<and> (\<forall>who b. Entered who \<in> set (attempts w) \<and> NumberFramed b \<noteq> 0 \<longrightarrow>
               step cfg (Dispatch who b None) w =
                 Some (dispatched who
                        (credit Cat_dropped (NumberFramed b) (client w), [Gosched]) w)
               \<and> (\<forall>src. step cfg (Dispatch who b (Some src)) w = None)))"
proof -
  have a: "NewClient mini (cfg\<lparr>cfg_Concurrency := n\<rparr>) = NewClient mini cfg"
    by (cases mini; cases "TimeTrigger cfg")
       (simp_all add: NewClient_def started_def new_m_def Let_def)
  have b: "\<not> isl mini \<and> (TimeTrigger cfg = TimeTriggerPeriodic \<longrightarrow> 0 \<le> Period cfg) \<longrightarrow>
         \<not> isl (snd (NewClient mini cfg)) \<and> Token_supply \<in> set (fst (NewClient mini cfg))"
    by (cases mini; cases "TimeTrigger cfg")
       (auto simp: NewClient_def started_def new_m_def Let_def Stats.extend_def Client.fields_def)
  have c: "tokens w = 0 \<and> supplied w = 0 \<and> spawned (trace w) = [] \<and> \<not> parked w
         \<and> (\<forall>who b. Entered who \<in> set (attempts w) \<and> NumberFramed b \<noteq> 0 \<longrightarrow>
               step cfg (Dispatch who b None) w =
                 Some (dispatched who
                        (credit Cat_dropped (NumberFramed b) (client w), [Gosched]) w)
               \<and> (\<forall>src. step cfg (Dispatch who b (Some src)) w = None))"
    if h: "execution mini cfg sched = Some w"
  proof -
    from assms have le: "cfg_Concurrency cfg \<le> 0" by simp
    from idle_execution [OF le h] have t: "token_inv cfg w" and i: "idle w" by simp_all
    from not_parked_idle [OF le t i] have p: "\<not> parked w" .
    have d: "step cfg (Dispatch who b (Some src)) w = None" for who b src
      using p by (cases src) (auto simp: parked_def supply_parked_def split: supplier.splits)
    from i p d show ?thesis
      by (auto simp: idle_def tokens_def dispatch_def statReq_credit)
  qed
  from a b c show ?thesis by blast
qed

text \<open>With capacity zero the supplier returns at once and the first record is dropped.\<close>

theorem zero_capacity_always_drops_witness:
  "cfg_Concurrency no_worker = 0
   \<and> \<not> isl (snd (NewClient (Inr sample_mini) no_worker))
   \<and> execution (Inr sample_mini) no_worker (Supply_step # one_attempt) \<noteq> None
   \<and> Entered By_buffer
       \<in> set (attempts (the (execution (Inr sample_mini) no_worker (Supply_step # one_attempt))))
   \<and> tokens (the (execution (Inr sample_mini) no_worker (Supply_step # one_attempt))) = 0
   \<and> map_option client (step no_worker (Dispatch By_buffer one_record None)
        (the (execution (Inr sample_mini) no_worker (Supply_step # one_attempt))))
      = Some (credit Cat_dropped 1
          (client (the (execution (Inr sample_mini) no_worker (Supply_step # one_attempt)))))
   \<and> step no_worker (Dispatch By_buffer one_record (Some From_supply))
        (the (execution (Inr sample_mini) no_worker (Supply_step # one_attempt))) = None"
proof -
  have z: "cfg_Concurrency no_worker = 0" by (simp add: no_worker_def)
  obtain w where h: "execution (Inr sample_mini) no_worker (Supply_step # one_attempt) = Some w"
    by (simp add: eval_defs sample_defs)
  have e: "Entered By_buffer \<in> set (attempts w)"
    using h by (auto simp: eval_defs sample_defs)
  have n: "NumberFramed one_record \<noteq> 0" by (simp add: one_record_def)
  have m: "\<not> isl (Inr sample_mini :: failure + MiniClient)"
    and q: "TimeTrigger no_worker = TimeTriggerPeriodic \<longrightarrow> 0 \<le> Period no_worker"
    by (simp_all add: no_worker_def)
  note t = zero_capacity_always_drops [OF z, of "Inr sample_mini" _ "Supply_step # one_attempt" w]
  from t m q have r0: "\<not> isl (snd (NewClient (Inr sample_mini) no_worker))" by blast
  from t h have r1: "tokens w = 0" by blast
  from t h e n have r2: "step no_worker (Dispatch By_buffer one_record None) w =
      Some (dispatched By_buffer
             (credit Cat_dropped (NumberFramed one_record) (client w), [Gosched]) w)"
    by blast
  from t h e n have r3: "step no_worker (Dispatch By_buffer one_record (Some From_supply)) w = None"
    by blast
  have nf: "NumberFramed one_record = 1" by (simp add: one_record_def)
  from z r0 h e r1 show ?thesis
    by (simp add: r2 r3 dispatched_def nf del: step.simps)
qed

end
